theory Spec2Isabelle
  imports Main
begin

section \<open>JavaScript values used by the project board\<close>

text \<open>
  The program is TypeScript running in a browser. Its \<open>number\<close> values are
  modelled as the integers together with \<open>NaN\<close>; fractional numbers and the
  infinities are outside this model. Strings are lists of characters, and
  \<open>length\<close> counts them as the source's \<open>.length\<close> counts code units.
\<close>

datatype jsnumber = Num int | NaN

text \<open>The relational operators \<open>>=\<close> and \<open><=\<close> on numbers: every comparison with
  \<open>NaN\<close> is false.\<close>

fun js_ge :: "jsnumber \<Rightarrow> jsnumber \<Rightarrow> bool" where
  "js_ge (Num a) (Num b) = (b \<le> a)"
| "js_ge _ _ = False"

fun js_le :: "jsnumber \<Rightarrow> jsnumber \<Rightarrow> bool" where
  "js_le (Num a) (Num b) = (a \<le> b)"
| "js_le _ _ = False"

text \<open>\<open>String.prototype.trim\<close>: white space is removed at both ends. A character of
  the model is a code unit below 256; the white space among them is tab, line feed,
  vertical tab, form feed, carriage return, space and the no-break space. The white
  space of Unicode beyond 255 is outside this model.\<close>

definition isWhiteSpace :: "char \<Rightarrow> bool" where
  "isWhiteSpace c =
     (c = CHR 0x09 \<or> c = CHR 0x0A \<or> c = CHR 0x0B \<or> c = CHR 0x0C \<or> c = CHR 0x0D \<or> c = CHR 0x20
      \<or> c = CHR 0xA0)"

definition trim :: "string \<Rightarrow> string" where
  "trim s = rev (dropWhile isWhiteSpace (rev (dropWhile isWhiteSpace s)))"

text \<open>\<open>Number.prototype.toString\<close> on the modelled numbers: decimal digits, a leading
  minus sign for a negative integer, and the text \<open>NaN\<close>. This is what the source
  prints for an integer of magnitude below \<open>10^21\<close>; the exponent form of larger
  ones is outside this model.\<close>

fun natToString :: "nat \<Rightarrow> string" where
  "natToString n =
     (if n < 10 then [''0123456789'' ! n]
      else natToString (n div 10) @ [''0123456789'' ! (n mod 10)])"

declare natToString.simps [simp del]

fun numberToString :: "jsnumber \<Rightarrow> string" where
  "numberToString NaN = ''NaN''"
| "numberToString (Num i) = (if i < 0 then CHR ''-'' # natToString (nat (- i)) else natToString (nat i))"

text \<open>The unary plus of the source (\<open>+people\<close>) on a string: white space is trimmed,
  the empty string is \<open>0\<close>, an optionally signed run of decimal digits is that
  integer, and every other text is \<open>NaN\<close> in this model. The model is exact for the
  texts of integers of magnitude up to \<open>2^53\<close>; fractions, exponents, hexadecimal
  literals and larger integers, which the source converts to other numbers, are outside
  it.\<close>

definition isDigit :: "char \<Rightarrow> bool" where
  "isDigit c = (CHR ''0'' = c \<or> CHR ''1'' = c \<or> CHR ''2'' = c \<or> CHR ''3'' = c \<or> CHR ''4'' = c
     \<or> CHR ''5'' = c \<or> CHR ''6'' = c \<or> CHR ''7'' = c \<or> CHR ''8'' = c \<or> CHR ''9'' = c)"

definition digitValue :: "char \<Rightarrow> nat" where
  "digitValue c = (of_char c :: nat) - 48"

definition digitsToNumber :: "string \<Rightarrow> jsnumber" where
  "digitsToNumber ds =
     (if ds \<noteq> [] \<and> list_all isDigit ds
      then Num (int (foldl (\<lambda>acc c. 10 * acc + digitValue c) 0 ds))
      else NaN)"

fun negate :: "jsnumber \<Rightarrow> jsnumber" where
  "negate (Num i) = Num (- i)"
| "negate NaN = NaN"

definition toNumber :: "string \<Rightarrow> jsnumber" where
  "toNumber s =
     (case trim s of
        [] \<Rightarrow> Num 0
      | c # ds \<Rightarrow>
          if c = CHR ''-'' then negate (digitsToNumber ds)
          else if c = CHR ''+'' then digitsToNumber ds
          else digitsToNumber (c # ds))"

text \<open>A value of type \<open>string | number\<close>, with \<open>toString()\<close> and \<open>typeof\<close>.\<close>

datatype JSValue = StringV string | NumberV jsnumber

fun toString :: "JSValue \<Rightarrow> string" where
  "toString (StringV s) = s"
| "toString (NumberV n) = numberToString n"

section \<open>Validation\<close>

text \<open>
  \<open>interface Validatable\<close>: the value and its optional constraints. An absent
  optional field is \<open>None\<close>. The fields \<open>min\<close> and \<open>max\<close> of the source are
  \<open>min_num\<close> and \<open>max_num\<close> here.
\<close>

record Validatable =
  "value" :: JSValue
  required :: "bool option"
  minLength :: "jsnumber option"
  maxLength :: "jsnumber option"
  min_num :: "jsnumber option"
  max_num :: "jsnumber option"

text \<open>
  \<open>function validate(input: Validatable)\<close>. Each \<open>if\<close> of the source updates
  \<open>isValid\<close> in turn; \<open>input.required\<close> is tested for truthiness and the bounds for
  \<open>!= null\<close> together with the \<open>typeof\<close> of the value.
\<close>

definition validate :: "Validatable \<Rightarrow> bool" where
  "validate input =
     (let isValid = True;
          isValid = (if required input = Some True
                     then isValid \<and> length (trim (toString (value input))) = 0
                     else isValid);
          isValid = (case (minLength input, value input) of
                       (Some m, StringV s) \<Rightarrow> isValid \<and> js_ge (Num (int (length s))) m
                     | _ \<Rightarrow> isValid);
          isValid = (case (maxLength input, value input) of
                       (Some m, StringV s) \<Rightarrow> isValid \<and> js_le (Num (int (length s))) m
                     | _ \<Rightarrow> isValid);
          isValid = (case (min_num input, value input) of
                       (Some m, NumberV n) \<Rightarrow> isValid \<and> js_ge n m
                     | _ \<Rightarrow> isValid);
          isValid = (case (max_num input, value input) of
                       (Some m, NumberV n) \<Rightarrow> isValid \<and> js_le n m
                     | _ \<Rightarrow> isValid)
      in isValid)"

section \<open>The project store\<close>

text \<open>
  \<open>enum ProjectStatus\<close> and \<open>class Project\<close>. The field \<open>id\<close> of the source is
  \<open>id'\<close> here.
\<close>

datatype ProjectStatus = Active | Finished

record Project =
  id' :: string
  title :: string
  description :: string
  people :: jsnumber
  status :: ProjectStatus

text \<open>
  Objects and arrays live in a heap and are denoted by references: a \<open>Project[]\<close> is a
  list of references to \<open>Project\<close> objects, so a copy of an array shares the objects of
  the original. \<open>nextRef\<close> is the next unused reference.

  A listener, \<open>(items: T[]) => void\<close>, is given the array it is called with and the
  objects of the heap to read. It answers with what it leaves in that array and with the
  new state of what it closes over (the views, of type \<open>'v\<close>). It holds no reference to
  another array, does not write to a \<open>Project\<close> and does not call back into the store.

  The record \<open>world\<close> is the state of the running page as far as the store is concerned:
  the heap, the two fields \<open>projects\<close> and \<open>listeners\<close> of the one instance of
  \<open>ProjectState\<close> (\<open>projects\<close> is the reference of its private array), the state of
  the views, and \<open>calls\<close>, the record of the listener calls made so far: the index of
  the listener, the reference of the array it was given, and what that array held when
  the listener was called.
\<close>

type_synonym ref = nat

type_synonym 'v Listener = "(ref \<Rightarrow> Project option) \<Rightarrow> ref list \<Rightarrow> 'v \<Rightarrow> ref list \<times> 'v"

record 'v world =
  objs :: "ref \<Rightarrow> Project option"
  arrs :: "ref \<Rightarrow> ref list option"
  nextRef :: ref
  projects :: ref
  listeners :: "'v Listener list"
  views :: 'v
  calls :: "(nat \<times> ref \<times> ref list) list"

definition arr :: "'v world \<Rightarrow> ref \<Rightarrow> ref list" where
  "arr st a = (case arrs st a of None \<Rightarrow> [] | Some xs \<Rightarrow> xs)"

definition deref :: "(ref \<Rightarrow> Project option) \<Rightarrow> ref \<Rightarrow> Project" where
  "deref h r = the (h r)"

text \<open>\<open>ProjectState.getInstance()\<close> on first use: a store with an empty array of
  projects and no listener.\<close>

definition newProjectState :: "'v \<Rightarrow> 'v world" where
  "newProjectState v =
     \<lparr>objs = Map.empty, arrs = [0 \<mapsto> []], nextRef = 1, projects = 0, listeners = [],
      views = v, calls = []\<rparr>"

definition addListener :: "'v Listener \<Rightarrow> 'v world \<Rightarrow> 'v world" where
  "addListener listenerFunction st = st\<lparr>listeners := listeners st @ [listenerFunction]\<rparr>"

text \<open>\<open>new Project(...)\<close>, \<open>Array.prototype.push\<close> and \<open>Array.prototype.slice\<close> with
  no argument (a new array holding the same references).\<close>

definition newObject :: "Project \<Rightarrow> 'v world \<Rightarrow> ref \<times> 'v world" where
  "newObject p st =
     (nextRef st, st\<lparr>objs := (objs st)(nextRef st \<mapsto> p), nextRef := Suc (nextRef st)\<rparr>)"

definition push :: "ref \<Rightarrow> ref \<Rightarrow> 'v world \<Rightarrow> 'v world" where
  "push a r st = st\<lparr>arrs := (arrs st)(a \<mapsto> arr st a @ [r])\<rparr>"

definition slice :: "ref \<Rightarrow> 'v world \<Rightarrow> ref \<times> 'v world" where
  "slice a st =
     (nextRef st, st\<lparr>arrs := (arrs st)(nextRef st \<mapsto> arr st a), nextRef := Suc (nextRef st)\<rparr>)"

text \<open>The call \<open>listenerFunction(a)\<close> of the listener with index \<open>i\<close>.\<close>

definition callListener :: "nat \<Rightarrow> 'v Listener \<Rightarrow> ref \<Rightarrow> 'v world \<Rightarrow> 'v world" where
  "callListener i listenerFunction a st =
     (case listenerFunction (objs st) (arr st a) (views st) of
        (items', v') \<Rightarrow>
          st\<lparr>arrs := (arrs st)(a \<mapsto> items'), views := v',
             calls := calls st @ [(i, a, arr st a)]\<rparr>)"

text \<open>The loop \<open>for (const listenerFunction of this.listeners)
  listenerFunction(this.projects.slice())\<close>, from the listener with index \<open>i\<close> on.\<close>

fun forListeners :: "nat \<Rightarrow> 'v Listener list \<Rightarrow> 'v world \<Rightarrow> 'v world" where
  "forListeners i [] st = st"
| "forListeners i (listenerFunction # rest) st =
     (case slice (projects st) st of
        (a, st1) \<Rightarrow> forListeners (Suc i) rest (callListener i listenerFunction a st1))"

text \<open>\<open>ProjectState.addProject\<close>. The first argument is the text that
  \<open>Math.random().toString()\<close> returns in this call.\<close>

definition addProject ::
  "string \<Rightarrow> string \<Rightarrow> string \<Rightarrow> jsnumber \<Rightarrow> 'v world \<Rightarrow> 'v world" where
  "addProject random title' description' people' st =
     (case newObject \<lparr>id' = random, title = title', description = description',
                      people = people', status = Active\<rparr> st of
        (newProject, st1) \<Rightarrow>
          (let st2 = push (projects st1) newProject st1
           in forListeners 0 (listeners st2) st2))"

text \<open>A sequence of calls of \<open>addProject\<close>, each with its four arguments.\<close>

fun addProjects :: "(string \<times> string \<times> string \<times> jsnumber) list \<Rightarrow> 'v world \<Rightarrow> 'v world" where
  "addProjects [] st = st"
| "addProjects ((random, title', description', people') # rest) st =
     addProjects rest (addProject random title' description' people' st)"

text \<open>The item that \<open>addProject\<close> constructs from its arguments, and the items of the
  store in order.\<close>

definition constructed :: "string \<times> string \<times> string \<times> jsnumber \<Rightarrow> Project" where
  "constructed c =
     (case c of (random, title', description', people') \<Rightarrow>
        \<lparr>id' = random, title = title', description = description', people = people',
         status = Active\<rparr>)"

definition snapshot :: "'v world \<Rightarrow> Project list" where
  "snapshot st = map (deref (objs st)) (arr st (projects st))"



text \<open>
  The states the program reaches: the array of the store and the objects it refers to
  were allocated before \<open>nextRef\<close>. \<open>idsNonEmpty\<close> says that no item of the store has the
  empty text as its identity, as is the case when every identity is the text of a number.
\<close>

definition wf :: "'v world \<Rightarrow> bool" where
  "wf st = (projects st < nextRef st \<and> list_all (\<lambda>r. r < nextRef st) (arr st (projects st)))"

definition idsNonEmpty :: "'v world \<Rightarrow> bool" where
  "idsNonEmpty st = list_all (\<lambda>r. id' (deref (objs st) r) \<noteq> []) (arr st (projects st))"

text \<open>
  Modelled from the spec: \<open>ProjectState.moveProject\<close>, whose file
  (\<open>state/project-state\<close>) is not among the sources; \<open>ProjectList.dropHandler\<close> calls
  it. The specification: "locates the WorkItem with the given identity; if none exists,
  the call is a no-op (must not fail and must not notify). If found, sets its status field
  and synchronously invokes every subscriber with a full snapshot, in registration order."
\<close>

definition findProject :: "string \<Rightarrow> 'v world \<Rightarrow> ref option" where
  "findProject projectId st =
     find (\<lambda>r. id' (deref (objs st) r) = projectId) (arr st (projects st))"

definition moveProject :: "string \<Rightarrow> ProjectStatus \<Rightarrow> 'v world \<Rightarrow> 'v world" where
  "moveProject projectId newStatus st =
     (case findProject projectId st of
        None \<Rightarrow> st
      | Some r \<Rightarrow>
          forListeners 0 (listeners st)
            (st\<lparr>objs := (objs st)(r \<mapsto> (deref (objs st) r)\<lparr>status := newStatus\<rparr>)\<rparr>))"

section \<open>The views\<close>

text \<open>
  \<open>Component.attach\<close>: the element is inserted into the children of the host,
  \<open>afterbegin\<close> or \<open>beforeend\<close>.
\<close>

definition attach :: "bool \<Rightarrow> 'e \<Rightarrow> 'e list \<Rightarrow> 'e list" where
  "attach insertAtStart element hostChildren =
     (if insertAtStart then element # hostChildren else hostChildren @ [element])"

text \<open>
  \<open>class ProjectItem\<close>: the bound project and what the constructor leaves in the
  \<open>li\<close> element: its id (set when the identity is not the empty text, and empty in the
  template) and the text of its \<open>h2\<close>, \<open>h3\<close> and \<open>p\<close>.
\<close>

record ProjectItem =
  project :: ref
  element_id :: string
  h2_textContent :: string
  h3_textContent :: string
  p_textContent :: string

definition persons :: "Project \<Rightarrow> string" where
  "persons p =
     (if people p = Num 1 then ''1 person'' else numberToString (people p) @ '' persons'')"

definition newProjectItem :: "(ref \<Rightarrow> Project option) \<Rightarrow> ref \<Rightarrow> ProjectItem" where
  "newProjectItem h r =
     (let p = deref h r in
      \<lparr>project = r,
       element_id = (if id' p \<noteq> [] then id' p else []),
       h2_textContent = title p,
       h3_textContent = persons p @ '' assigned'',
       p_textContent = description p\<rparr>)"

text \<open>
  \<open>class ProjectList\<close>: its \<open>type\<close>, the held \<open>assignedProjects\<close>, and the \<open>ul\<close>
  element inside its own element: id, class list and children. The \<open>ul\<close> found by
  \<open>document.getElementById\<close> under the id that \<open>renderContent\<close> gave it is this
  \<open>ul\<close>.
\<close>

datatype ListType = active | finished

record ProjectList =
  "type" :: ListType
  assignedProjects :: "ref list"
  ul_id :: string
  ul_classList :: "string list"
  ul_children :: "ProjectItem list"

definition typeName :: "ListType \<Rightarrow> string" where
  "typeName t = (case t of active \<Rightarrow> ''active'' | finished \<Rightarrow> ''finished'')"

definition renderContent :: "ProjectList \<Rightarrow> ProjectList" where
  "renderContent this = this\<lparr>ul_id := typeName (type this) @ ''-projects-list''\<rparr>"

text \<open>The test of the filter in \<open>ProjectList.configure\<close>.\<close>

definition relevant :: "ListType \<Rightarrow> Project \<Rightarrow> bool" where
  "relevant t proj = (if t = active then status proj = Active else status proj = Finished)"

text \<open>\<open>ProjectList.renderProjects\<close>: the list is emptied and one \<open>ProjectItem\<close> is
  constructed for each assigned project, attached at the end.\<close>

definition renderProjects :: "(ref \<Rightarrow> Project option) \<Rightarrow> ProjectList \<Rightarrow> ProjectList" where
  "renderProjects h this =
     foldl (\<lambda>l projectItem.
              l\<lparr>ul_children := attach False (newProjectItem h projectItem) (ul_children l)\<rparr>)
           (this\<lparr>ul_children := []\<rparr>) (assignedProjects this)"

text \<open>The listener that \<open>ProjectList.configure\<close> registers. It leaves the array it is
  given as it is.\<close>

definition projectsListener :: "ProjectList Listener" where
  "projectsListener h projects' this =
     (let relevantProjects = filter (\<lambda>r. relevant (type this) (deref h r)) projects'
      in (projects', renderProjects h (this\<lparr>assignedProjects := relevantProjects\<rparr>)))"

text \<open>The page has one list for each type; the views are the two lists, and the
  listener of the list of type \<open>t\<close> works on that list.\<close>

definition listenerOf :: "ListType \<Rightarrow> (ListType \<Rightarrow> ProjectList) Listener" where
  "listenerOf t h projects' v =
     (case projectsListener h projects' (v t) of (items', this') \<Rightarrow> (items', v(t := this')))"

text \<open>The status that belongs to the category of a list.\<close>

definition categoryStatus :: "ListType \<Rightarrow> ProjectStatus" where
  "categoryStatus t = (case t of active \<Rightarrow> Active | finished \<Rightarrow> Finished)"

section \<open>Drag and drop\<close>

text \<open>
  The platform's \<open>DataTransfer\<close>: the drag data store is a list of formats with their
  data, in the order in which they were set. \<open>types\<close> lists the formats, \<open>getData\<close>
  answers the empty text for a format that is not there, and \<open>setData\<close> replaces the
  entry of its format. An event has \<open>defaultPrevented\<close>; a \<open>DragEvent\<close> also has its
  \<open>dataTransfer\<close>, which may be null. Reading a property of null is a \<open>TypeError\<close>.
  What \<open>console.log\<close> prints is not part of the state.
\<close>

record DataTransfer =
  store :: "(string \<times> string) list"
  effectAllowed :: string

definition types :: "DataTransfer \<Rightarrow> string list" where
  "types dt = map fst (store dt)"

definition getData :: "string \<Rightarrow> DataTransfer \<Rightarrow> string" where
  "getData format dt = (case map_of (store dt) format of None \<Rightarrow> [] | Some d \<Rightarrow> d)"

definition setData :: "string \<Rightarrow> string \<Rightarrow> DataTransfer \<Rightarrow> DataTransfer" where
  "setData format d dt =
     dt\<lparr>store := filter (\<lambda>item. fst item \<noteq> format) (store dt) @ [(format, d)]\<rparr>"

record Event =
  defaultPrevented :: bool

record DragEvent = Event +
  dataTransfer :: "DataTransfer option"

definition preventDefault :: "'a Event_scheme \<Rightarrow> 'a Event_scheme" where
  "preventDefault event = event\<lparr>defaultPrevented := True\<rparr>"

datatype error = TypeError

definition classList_add :: "string \<Rightarrow> string list \<Rightarrow> string list" where
  "classList_add token classList =
     (if token \<in> set classList then classList else classList @ [token])"

definition classList_remove :: "string \<Rightarrow> string list \<Rightarrow> string list" where
  "classList_remove token classList = removeAll token classList"

text \<open>\<open>ProjectItem.dragStartHandler\<close> and \<open>ProjectItem.dragEndHandler\<close>.\<close>

definition dragStartHandler ::
  "(ref \<Rightarrow> Project option) \<Rightarrow> ProjectItem \<Rightarrow> DragEvent \<Rightarrow> error + DragEvent" where
  "dragStartHandler h this event =
     (case dataTransfer event of
        None \<Rightarrow> Inl TypeError
      | Some dt \<Rightarrow>
          Inr (event\<lparr>dataTransfer :=
                 Some ((setData ''text/plain'' (id' (deref h (project this))) dt)
                         \<lparr>effectAllowed := ''move''\<rparr>)\<rparr>))"

definition dragEndHandler :: "ProjectItem \<Rightarrow> DragEvent \<Rightarrow> ProjectItem \<times> DragEvent" where
  "dragEndHandler this event = (this, event)"

text \<open>\<open>ProjectList.dragOverHandler\<close>: \<open>event.dataTransfer.types[0]\<close> is the first
  format, and is undefined when there is none.\<close>

definition dragOverHandler :: "ProjectList \<Rightarrow> DragEvent \<Rightarrow> ProjectList \<times> DragEvent" where
  "dragOverHandler this event =
     (case dataTransfer event of
        None \<Rightarrow> (this, event)
      | Some dt \<Rightarrow>
          (case types dt of
             [] \<Rightarrow> (this, event)
           | first # _ \<Rightarrow>
               if first = ''text/plain''
               then (this\<lparr>ul_classList := classList_add ''droppable'' (ul_classList this)\<rparr>,
                     preventDefault event)
               else (this, event)))"

text \<open>\<open>ProjectList.dropHandler\<close>. The store's \<open>moveProject\<close> is a parameter; the
  state \<open>'s\<close> is the state it works on. The event is returned as the handler leaves
  it.\<close>

definition dropHandler ::
  "(string \<Rightarrow> ProjectStatus \<Rightarrow> 's \<Rightarrow> 's) \<Rightarrow> ProjectList \<Rightarrow> DragEvent \<Rightarrow> 's \<Rightarrow>
     error + DragEvent \<times> 's" where
  "dropHandler moveProject' this event st =
     (case dataTransfer event of
        None \<Rightarrow> Inl TypeError
      | Some dt \<Rightarrow>
          (let projectId = getData ''text/plain'' dt
           in Inr (event, moveProject' projectId
                            (if type this = active then Active else Finished) st)))"

definition dragLeaveHandler :: "ProjectList \<Rightarrow> ProjectList" where
  "dragLeaveHandler this =
     this\<lparr>ul_classList := classList_remove ''droppable'' (ul_classList this)\<rparr>"

text \<open>A drag payload advertises a format when the format is among its types; the first
  type of an event is the one the handler looks at.\<close>

definition advertises :: "string \<Rightarrow> DragEvent \<Rightarrow> bool" where
  "advertises format event =
     (case dataTransfer event of None \<Rightarrow> False | Some dt \<Rightarrow> format \<in> set (types dt))"

definition firstType :: "DragEvent \<Rightarrow> string option" where
  "firstType event =
     (case dataTransfer event of
        None \<Rightarrow> None
      | Some dt \<Rightarrow> (case types dt of [] \<Rightarrow> None | first # _ \<Rightarrow> Some first))"

section \<open>The input form\<close>

text \<open>
  \<open>class ProjectInput\<close>: the \<open>value\<close> of each of its three input elements.
  \<open>gatherUserInput\<close> answers the triple, or nothing after an \<open>alert\<close>; the texts shown
  by \<open>alert\<close> are collected in a list.
\<close>

record ProjectInput =
  titleInputElement :: string
  descriptionInputElement :: string
  peopleInputElement :: string

definition gatherUserInput ::
  "ProjectInput \<Rightarrow> string list \<Rightarrow> (string \<times> string \<times> jsnumber) option \<times> string list" where
  "gatherUserInput this shown =
     (let title' = titleInputElement this;
          description' = descriptionInputElement this;
          people' = peopleInputElement this;
          titleValidatable =
            \<lparr>value = StringV title', required = Some True, minLength = None,
             maxLength = None, min_num = None, max_num = None\<rparr>;
          descriptionValidatable =
            \<lparr>value = StringV description', required = Some True, minLength = Some (Num 5),
             maxLength = None, min_num = None, max_num = None\<rparr>;
          peopleValidatable =
            \<lparr>value = NumberV (toNumber people'), required = Some True, minLength = None,
             maxLength = None, min_num = Some (Num 0), max_num = Some (Num 10)\<rparr>
      in if validate titleValidatable \<or> validate descriptionValidatable
            \<or> validate peopleValidatable
         then (None, shown @ [''Invalid input, please try again!''])
         else (Some (title', description', toNumber people'), shown))"

definition clearInputs :: "ProjectInput \<Rightarrow> ProjectInput" where
  "clearInputs this =
     this\<lparr>titleInputElement := [], descriptionInputElement := [], peopleInputElement := []\<rparr>"

text \<open>The page: the form, the alerts shown so far, and the store with its views.
  \<open>ProjectInput.submitHandler\<close>; the first argument is the text that
  \<open>Math.random().toString()\<close> returns if \<open>addProject\<close> is called.\<close>

record 'v page =
  projectInput :: ProjectInput
  alerts :: "string list"
  projectState :: "'v world"

definition submitHandler :: "string \<Rightarrow> Event \<Rightarrow> 'v page \<Rightarrow> Event \<times> 'v page" where
  "submitHandler random event pg =
     (let event' = preventDefault event in
      case gatherUserInput (projectInput pg) (alerts pg) of
        (None, shown) \<Rightarrow> (event', pg\<lparr>alerts := shown\<rparr>)
      | (Some (title', description', people'), shown) \<Rightarrow>
          (event',
           pg\<lparr>alerts := shown,
              projectState := addProject random title' description' people' (projectState pg),
              projectInput := clearInputs (projectInput pg)\<rparr>))"

section \<open>Example states\<close>

text \<open>Two listeners for a store whose views are a number: the first empties the array
  it is given and counts one up, the second notes the length of the array it is given.\<close>

definition dropAll :: "nat Listener" where
  "dropAll h items' v = ([], Suc v)"

definition noteLength :: "nat Listener" where
  "noteLength h items' v = (items', length items')"

definition twoListeners :: "nat world" where
  "twoListeners = addListener noteLength (addListener dropAll (newProjectState 0))"

text \<open>The same two listeners registered the other way round.\<close>

definition listenersReversed :: "nat world" where
  "listenersReversed = addListener dropAll (addListener noteLength (newProjectState 0))"

definition oneProject :: "nat world" where
  "oneProject =
     addProject ''0.25'' ''Build API'' ''Implement REST endpoints'' (Num 3) twoListeners"

text \<open>The page as the source wires it: the list of active projects is constructed first,
  then the list of finished ones, each registering its listener.\<close>

definition emptyList :: "ListType \<Rightarrow> ProjectList" where
  "emptyList t =
     renderContent \<lparr>type = t, assignedProjects = [], ul_id = [], ul_classList = [],
                    ul_children = []\<rparr>"

definition board :: "(ListType \<Rightarrow> ProjectList) world" where
  "board =
     addListener (listenerOf finished) (addListener (listenerOf active)
       (newProjectState emptyList))"

text \<open>Drag events: one with no data yet, one carrying an identity as plain text, one of a
  dragged link (a URI list first, plain text second) and one with HTML only.\<close>

definition freshDrag :: DragEvent where
  "freshDrag =
     \<lparr>defaultPrevented = False,
      dataTransfer = Some \<lparr>store = [], effectAllowed = ''uninitialized''\<rparr>\<rparr>"

definition plainDrag :: DragEvent where
  "plainDrag =
     \<lparr>defaultPrevented = False,
      dataTransfer = Some \<lparr>store = [(''text/plain'', ''0.25'')], effectAllowed = ''move''\<rparr>\<rparr>"

definition linkDrag :: DragEvent where
  "linkDrag =
     \<lparr>defaultPrevented = False,
      dataTransfer = Some \<lparr>store = [(''text/uri-list'', ''https://example.org/''),
                                    (''text/plain'', ''https://example.org/'')],
                           effectAllowed = ''all''\<rparr>\<rparr>"

definition htmlDrag :: DragEvent where
  "htmlDrag =
     \<lparr>defaultPrevented = False,
      dataTransfer = Some \<lparr>store = [(''text/html'', ''<b>x</b>'')], effectAllowed = ''all''\<rparr>\<rparr>"

text \<open>A move that only notes its arguments.\<close>

definition recordMove ::
  "string \<Rightarrow> ProjectStatus \<Rightarrow> (string \<times> ProjectStatus) list \<Rightarrow> (string \<times> ProjectStatus) list" where
  "recordMove projectId newStatus moves = moves @ [(projectId, newStatus)]"

text \<open>A form filled with a title, a description of three characters and eleven
  people, on a page whose store is empty.\<close>

definition shortDescription :: "nat page" where
  "shortDescription =
     \<lparr>projectInput = \<lparr>titleInputElement = ''Build API'', descriptionInputElement = ''abc'',
                       peopleInputElement = ''11''\<rparr>,
      alerts = [], projectState = twoListeners\<rparr>"

section \<open>Properties of validation\<close>

lemma validate_string:
  "validate \<lparr>value = StringV s, required = r, minLength = a, maxLength = b,
             min_num = c, max_num = d\<rparr> =
     ((r = Some True \<longrightarrow> trim s = []) \<and>
      (case a of None \<Rightarrow> True | Some m \<Rightarrow> js_ge (Num (int (length s))) m) \<and>
      (case b of None \<Rightarrow> True | Some m \<Rightarrow> js_le (Num (int (length s))) m))"
  by (auto simp: validate_def split: option.splits)

lemma validate_number:
  "validate \<lparr>value = NumberV n, required = r, minLength = a, maxLength = b,
             min_num = c, max_num = d\<rparr> =
     ((r = Some True \<longrightarrow> trim (numberToString n) = []) \<and>
      (case c of None \<Rightarrow> True | Some m \<Rightarrow> js_ge n m) \<and>
      (case d of None \<Rightarrow> True | Some m \<Rightarrow> js_le n m))"
  by (auto simp: validate_def split: option.splits)

lemma validate_required_blank:
  assumes "validate input" and "required input = Some True"
  shows "trim (toString (value input)) = []"
proof (cases input)
  case (fields v r a b c d)
  with assms show ?thesis
    by (cases v) (auto simp: validate_string validate_number)
qed

text \<open>
  Claim C1. The specification reads \<open>required\<close> as "the value is non-empty after
  trimming", with the scenarios \<open>validate({value: "", required: true})\<close> false and
  \<open>validate({value: "hello", required: true, minLength: 3})\<close> true. The source
  tests \<open>trim().length === 0\<close> under \<open>required\<close>, so the code answers the other
  way round on both; the third scenario, \<open>validate({value: 11, min: 0, max: 10})\<close>,
  is false in the code as in the specification.
\<close>

theorem validate_required_scenarios:
  "validate \<lparr>value = StringV '''', required = Some True, minLength = None,
              maxLength = None, min_num = None, max_num = None\<rparr> = True
   \<and> validate \<lparr>value = StringV ''hello'', required = Some True, minLength = Some (Num 3),
              maxLength = None, min_num = None, max_num = None\<rparr> = False
   \<and> validate \<lparr>value = NumberV (Num 11), required = None, minLength = None,
              maxLength = None, min_num = Some (Num 0), max_num = Some (Num 10)\<rparr> = False"
  by (simp add: validate_string validate_number trim_def isWhiteSpace_def)

text \<open>
  Claim C10. A bound is applied only to a value of the matching type: for a number the
  constraints \<open>minLength\<close> and \<open>maxLength\<close> are ignored, for a string the
  constraints \<open>min\<close> and \<open>max\<close> are ignored; so an input whose only constraints are
  of the other type, with \<open>required\<close> absent or false, is valid, and so is an input
  with no constraint at all.
\<close>

theorem validate_bounds_by_type:
  "validate \<lparr>value = NumberV n, required = r, minLength = a, maxLength = b,
              min_num = c, max_num = d\<rparr>
     = validate \<lparr>value = NumberV n, required = r, minLength = None, maxLength = None,
              min_num = c, max_num = d\<rparr>
   \<and> validate \<lparr>value = StringV s, required = r, minLength = a, maxLength = b,
              min_num = c, max_num = d\<rparr>
     = validate \<lparr>value = StringV s, required = r, minLength = a, maxLength = b,
              min_num = None, max_num = None\<rparr>
   \<and> validate \<lparr>value = NumberV n, required = None, minLength = a, maxLength = b,
              min_num = None, max_num = None\<rparr>
   \<and> validate \<lparr>value = NumberV n, required = Some False, minLength = a, maxLength = b,
              min_num = None, max_num = None\<rparr>
   \<and> validate \<lparr>value = StringV s, required = None, minLength = None, maxLength = None,
              min_num = c, max_num = d\<rparr>
   \<and> validate \<lparr>value = StringV s, required = Some False, minLength = None,
              maxLength = None, min_num = c, max_num = d\<rparr>
   \<and> validate \<lparr>value = v, required = None, minLength = None, maxLength = None,
              min_num = None, max_num = None\<rparr>
   \<and> validate \<lparr>value = v, required = Some False, minLength = None, maxLength = None,
              min_num = None, max_num = None\<rparr>"
proof -
  have none: "validate \<lparr>value = v, required = q, minLength = None, maxLength = None,
      min_num = None, max_num = None\<rparr>" if "q \<noteq> Some True" for q
    using that by (cases v) (simp_all add: validate_string validate_number)
  show ?thesis
    by (simp add: validate_string validate_number none)
qed

section \<open>Properties of the store\<close>

subsection \<open>The loop over the listeners\<close>

lemma forListeners_fields:
  "projects (forListeners i ls st) = projects st"
  "objs (forListeners i ls st) = objs st"
  "listeners (forListeners i ls st) = listeners st"
  "nextRef (forListeners i ls st) = nextRef st + length ls"
  by (induction ls arbitrary: i st; simp add: slice_def callListener_def split: prod.splits)+

lemma forListeners_frame:
  "a < nextRef st \<Longrightarrow> arrs (forListeners i ls st) a = arrs st a"
  by (induction ls arbitrary: i st) (auto simp: slice_def callListener_def split: prod.splits)

lemma forListeners_calls:
  "projects st < nextRef st \<Longrightarrow>
   calls (forListeners i ls st) =
     calls st @ map (\<lambda>k. (i + k, nextRef st + k, arr st (projects st))) [0..<length ls]"
proof (induction ls arbitrary: i st)
  case Nil
  then show ?case by simp
next
  case (Cons l ls)
  then show ?case
    by (simp add: slice_def callListener_def arr_def map_upt_Suc del: upt_Suc split: prod.splits)
qed

lemma forListeners_views:
  "projects st < nextRef st \<Longrightarrow>
   views (forListeners i ls st) =
     foldl (\<lambda>v l. snd (l (objs st) (arr st (projects st)) v)) (views st) ls"
proof (induction ls arbitrary: i st)
  case Nil
  then show ?case by simp
next
  case (Cons l ls)
  then show ?case
    by (simp add: slice_def callListener_def arr_def split: prod.splits)
qed

lemma forListeners_handed:
  "projects st < nextRef st \<Longrightarrow> k < length ls \<Longrightarrow>
   arrs (forListeners i ls st) (nextRef st + k) =
     Some (fst ((ls ! k) (objs st) (arr st (projects st))
                  (foldl (\<lambda>v l. snd (l (objs st) (arr st (projects st)) v)) (views st)
                         (take k ls))))"
proof (induction ls arbitrary: i st k)
  case Nil
  then show ?case by simp
next
  case (Cons l ls)
  define st2 where "st2 = callListener i l (nextRef st) (snd (slice (projects st) st))"
  have lt: "projects st < nextRef st"
    using Cons.prems by simp
  have loop: "forListeners i (l # ls) st = forListeners (Suc i) ls st2"
    by (simp add: st2_def slice_def)
  have fields: "projects st2 = projects st" "nextRef st2 = Suc (nextRef st)" "objs st2 = objs st"
    by (simp_all add: st2_def slice_def callListener_def split: prod.splits)
  have seq: "arr st2 (projects st) = arr st (projects st)"
    using lt by (simp add: st2_def slice_def callListener_def arr_def split: prod.splits)
  have v: "views st2 = snd (l (objs st) (arr st (projects st)) (views st))"
    by (simp add: st2_def slice_def callListener_def arr_def split: prod.splits)
  have left: "arrs st2 (nextRef st) = Some (fst (l (objs st) (arr st (projects st)) (views st)))"
    by (simp add: st2_def slice_def callListener_def arr_def split: prod.splits)
  show ?case
  proof (cases k)
    case 0
    then show ?thesis
      unfolding loop by (simp add: forListeners_frame fields left)
  next
    case (Suc k')
    have "arrs (forListeners (Suc i) ls st2) (nextRef st2 + k') =
        Some (fst ((ls ! k') (objs st2) (arr st2 (projects st2))
          (foldl (\<lambda>v l. snd (l (objs st2) (arr st2 (projects st2)) v)) (views st2)
             (take k' ls))))"
      using Cons.prems Suc lt by (intro Cons.IH) (simp_all add: fields)
    then show ?thesis
      unfolding loop by (simp add: Suc fields seq v)
  qed
qed

subsection \<open>Adding a project\<close>

lemma wf_newProjectState: "wf (newProjectState v)"
  by (simp add: wf_def newProjectState_def arr_def)

lemma wf_addListener: "wf st \<Longrightarrow> wf (addListener l st)"
  by (simp add: wf_def addListener_def arr_def)

lemma addProject_fields:
  "projects (addProject random t d n st) = projects st"
  "listeners (addProject random t d n st) = listeners st"
  "nextRef (addProject random t d n st) = Suc (nextRef st) + length (listeners st)"
  "objs (addProject random t d n st) =
     (objs st)(nextRef st \<mapsto> \<lparr>id' = random, title = t, description = d, people = n,
                                  status = Active\<rparr>)"
  by (simp_all add: addProject_def newObject_def push_def forListeners_fields Let_def)


lemma addProject_sequence:
  "projects st < nextRef st \<Longrightarrow>
   arr (addProject random t d n st) (projects st) = arr st (projects st) @ [nextRef st]"
  by (simp add: addProject_def newObject_def push_def forListeners_frame Let_def arr_def)

lemma addProject_calls:
  "projects st < nextRef st \<Longrightarrow>
   calls (addProject random t d n st) =
     calls st @ map (\<lambda>k. (k, Suc (nextRef st) + k, arr st (projects st) @ [nextRef st]))
                    [0..<length (listeners st)]"
  by (simp add: addProject_def newObject_def push_def forListeners_calls Let_def arr_def)

lemma addProject_views:
  assumes "projects st < nextRef st"
  shows "views (addProject random t d n st) =
           foldl (\<lambda>v l. snd (l (objs (addProject random t d n st))
                                (arr (addProject random t d n st) (projects st)) v))
                 (views st) (listeners st)"
  using assms
  by (simp add: addProject_sequence addProject_fields)
     (simp add: addProject_def newObject_def push_def forListeners_views Let_def arr_def)

lemma addProject_handed:
  "projects st < nextRef st \<Longrightarrow> k < length (listeners st) \<Longrightarrow>
   arrs (addProject random t d n st) (Suc (nextRef st + k)) =
     Some (fst ((listeners st ! k) (objs (addProject random t d n st))
                  (arr st (projects st) @ [nextRef st])
                  (foldl (\<lambda>v l. snd (l (objs (addProject random t d n st))
                                       (arr st (projects st) @ [nextRef st]) v))
                         (views st) (take k (listeners st)))))"
  using forListeners_handed [of "push (projects st) (nextRef st)
      (snd (newObject \<lparr>id' = random, title = t, description = d, people = n,
                       status = Active\<rparr> st))" k "listeners st" 0]
  by (simp add: addProject_fields)
     (simp add: addProject_def newObject_def push_def arr_def Let_def)

lemma wf_addProject: "wf st \<Longrightarrow> wf (addProject random t d n st)"
  unfolding wf_def
  by (auto simp: addProject_fields addProject_sequence list_all_iff)

lemma addProjects_projects: "projects (addProjects cs st) = projects st"
  by (induction cs st rule: addProjects.induct) (simp_all add: addProject_fields)

lemma addProjects_length:
  "wf st \<Longrightarrow>
   length (arr (addProjects cs st) (projects st)) = length (arr st (projects st)) + length cs"
proof (induction cs st rule: addProjects.induct)
  case (1 st)
  then show ?case by simp
next
  case (2 random t d n rest st)
  have "wf (addProject random t d n st)"
    using "2.prems" by (rule wf_addProject)
  with "2.IH" have "length (arr (addProjects rest (addProject random t d n st)) (projects st))
      = length (arr (addProject random t d n st) (projects st)) + length rest"
    by (simp add: addProject_fields)
  with "2.prems" show ?case
    by (simp add: addProject_sequence wf_def)
qed

lemma snapshot_addProject:
  assumes "wf st"
  shows "snapshot (addProject random t d n st) = snapshot st @ [constructed (random, t, d, n)]"
proof -
  have lt: "projects st < nextRef st" and old: "\<forall>r \<in> set (arr st (projects st)). r \<noteq> nextRef st"
    using assms by (auto simp: wf_def list_all_iff)
  have "map (deref ((objs st)(nextRef st \<mapsto> constructed (random, t, d, n)))) (arr st (projects st))
      = map (deref (objs st)) (arr st (projects st))"
    using old by (intro map_cong) (auto simp: deref_def)
  then show ?thesis
    using lt
    by (simp add: snapshot_def addProject_fields addProject_sequence constructed_def deref_def)
qed

lemma snapshot_addProjects:
  "wf st \<Longrightarrow> snapshot (addProjects cs st) = snapshot st @ map constructed cs"
proof (induction cs st rule: addProjects.induct)
  case (1 st)
  then show ?case by simp
next
  case (2 random t d n rest st)
  then show ?case
    by (simp add: wf_addProject snapshot_addProject)
qed

lemma twoListeners_simps:
  "projects twoListeners = 0" "nextRef twoListeners = 1" "arrs twoListeners = [0 \<mapsto> []]"
  "objs twoListeners = Map.empty" "listeners twoListeners = [dropAll, noteLength]"
  "views twoListeners = 0" "calls twoListeners = []"
  by (simp_all add: twoListeners_def addListener_def newProjectState_def)

lemma listenersReversed_simps:
  "projects listenersReversed = 0" "nextRef listenersReversed = 1"
  "arrs listenersReversed = [0 \<mapsto> []]" "objs listenersReversed = Map.empty"
  "listeners listenersReversed = [noteLength, dropAll]"
  "views listenersReversed = 0" "calls listenersReversed = []"
  by (simp_all add: listenersReversed_def addListener_def newProjectState_def)

lemma wf_listenersReversed: "wf listenersReversed"
  by (simp add: listenersReversed_def wf_addListener wf_newProjectState)

lemma wf_twoListeners: "wf twoListeners"
  by (simp add: twoListeners_def wf_addListener wf_newProjectState)

subsection \<open>Moving a project\<close>

lemma findProject_None:
  "(findProject projectId st = None) =
     (\<not> (\<exists>r \<in> set (arr st (projects st)). id' (deref (objs st) r) = projectId))"
  by (auto simp: findProject_def find_None_iff)

lemma findProject_Some:
  "findProject projectId st = Some r \<Longrightarrow>
     r \<in> set (arr st (projects st)) \<and> id' (deref (objs st) r) = projectId"
  by (auto simp: findProject_def find_Some_iff)

lemma moveProject_absent:
  "findProject projectId st = None \<Longrightarrow> moveProject projectId newStatus st = st"
  by (simp add: moveProject_def)

lemma moveProject_fields:
  "projects (moveProject projectId newStatus st) = projects st"
  "listeners (moveProject projectId newStatus st) = listeners st"
  by (simp_all add: moveProject_def forListeners_fields split: option.splits)

lemma moveProject_nextRef: "nextRef st \<le> nextRef (moveProject projectId newStatus st)"
  by (simp add: moveProject_def forListeners_fields split: option.splits)

lemma moveProject_frame:
  "a < nextRef st \<Longrightarrow> arrs (moveProject projectId newStatus st) a = arrs st a"
  by (simp add: moveProject_def forListeners_frame split: option.splits)

lemma moveProject_objs:
  "findProject projectId st = Some r \<Longrightarrow>
   objs (moveProject projectId newStatus st) =
     (objs st)(r \<mapsto> (deref (objs st) r)\<lparr>status := newStatus\<rparr>)"
  by (simp add: moveProject_def forListeners_fields)

lemma moveProject_calls:
  "findProject projectId st = Some r \<Longrightarrow> projects st < nextRef st \<Longrightarrow>
   calls (moveProject projectId newStatus st) =
     calls st @ map (\<lambda>k. (k, nextRef st + k, arr st (projects st)))
                    [0..<length (listeners st)]"
  by (simp add: moveProject_def forListeners_calls arr_def)

lemma moveProject_sequence:
  "projects st < nextRef st \<Longrightarrow>
   arr (moveProject projectId newStatus st) (projects st) = arr st (projects st)"
  by (simp add: arr_def moveProject_frame)


lemma moveProject_views:
  "findProject projectId st = Some r \<Longrightarrow> projects st < nextRef st \<Longrightarrow>
   views (moveProject projectId newStatus st) =
     foldl (\<lambda>v l. snd (l (objs (moveProject projectId newStatus st)) (arr st (projects st)) v))
           (views st) (listeners st)"
  by (simp add: moveProject_objs) (simp add: moveProject_def forListeners_views arr_def)

lemma moveProject_handed:
  "findProject projectId st = Some r \<Longrightarrow> projects st < nextRef st \<Longrightarrow>
   k < length (listeners st) \<Longrightarrow>
   arrs (moveProject projectId newStatus st) (nextRef st + k) =
     Some (fst ((listeners st ! k) (objs (moveProject projectId newStatus st))
                  (arr st (projects st))
                  (foldl (\<lambda>v l. snd (l (objs (moveProject projectId newStatus st))
                                       (arr st (projects st)) v))
                         (views st) (take k (listeners st)))))"
  using forListeners_handed [of
      "st\<lparr>objs := (objs st)(r \<mapsto> (deref (objs st) r)\<lparr>status := newStatus\<rparr>)\<rparr>"
      k "listeners st" 0]
  by (simp add: moveProject_objs) (simp add: moveProject_def arr_def)


lemma wf_moveProject: "wf st \<Longrightarrow> wf (moveProject projectId newStatus st)"
  using moveProject_nextRef [of st projectId newStatus]
  by (auto simp: wf_def moveProject_fields moveProject_sequence list_all_iff)

lemma moveProject_ids:
  "id' (deref (objs (moveProject projectId newStatus st)) r) = id' (deref (objs st) r)"
  by (cases "findProject projectId st")
     (simp_all add: moveProject_absent moveProject_objs deref_def)

lemma idsNonEmpty_newProjectState: "idsNonEmpty (newProjectState v)"
  by (simp add: idsNonEmpty_def newProjectState_def arr_def)

lemma idsNonEmpty_snapshot: "idsNonEmpty st = list_all (\<lambda>p. id' p \<noteq> []) (snapshot st)"
  by (simp add: idsNonEmpty_def snapshot_def list_all_iff)

lemma idsNonEmpty_addProject:
  "wf st \<Longrightarrow> idsNonEmpty st \<Longrightarrow> random \<noteq> [] \<Longrightarrow> idsNonEmpty (addProject random t d n st)"
  by (simp add: idsNonEmpty_snapshot snapshot_addProject constructed_def)

lemma idsNonEmpty_moveProject:
  "wf st \<Longrightarrow> idsNonEmpty st \<Longrightarrow> idsNonEmpty (moveProject projectId newStatus st)"
  by (simp add: idsNonEmpty_def moveProject_ids moveProject_fields moveProject_sequence wf_def)

lemma oneProject_simps:
  "projects oneProject = 0" "nextRef oneProject = 4" "arr oneProject 0 = [1]"
  "listeners oneProject = [dropAll, noteLength]"
  "objs oneProject = [1 \<mapsto> \<lparr>id' = ''0.25'', title = ''Build API'',
       description = ''Implement REST endpoints'', people = Num 3, status = Active\<rparr>]"
  "calls oneProject = [(0, 2, [1]), (1, 3, [1])]"
  using addProject_sequence [of twoListeners "''0.25''" "''Build API''"
      "''Implement REST endpoints''" "Num 3"]
    addProject_calls [of twoListeners "''0.25''" "''Build API''"
      "''Implement REST endpoints''" "Num 3"]
  by (simp_all add: oneProject_def addProject_fields twoListeners_simps arr_def upt_rec)

text \<open>In \<open>oneProject\<close> the first listener has emptied the array it was given; the
  second, called after it, was given the whole sequence all the same and noted its
  length.\<close>

lemma oneProject_heap:
  "arrs oneProject = [0 \<mapsto> [1], 2 \<mapsto> [], 3 \<mapsto> [1]]" "views oneProject = 1"
  by (simp_all add: oneProject_def addProject_def newObject_def push_def slice_def
      callListener_def twoListeners_simps dropAll_def noteLength_def arr_def Let_def
      numeral_2_eq_2 numeral_3_eq_3)

lemma wf_oneProject: "wf oneProject"
  unfolding oneProject_def by (rule wf_addProject [OF wf_twoListeners])

text \<open>
  Claim C3. From a store with no item, after any sequence of calls of \<open>addProject\<close> the
  sequence of the store has as many items as there were calls, and its items are the
  constructed ones in the order of the calls, each with the status \<open>Active\<close>. One call
  constructs an item with the generated identity and the status \<open>Active\<close>, appends its
  reference to the sequence and leaves every other object as it was. Before it returns it
  has run every listener once, in the order of registration: the views are what the
  listeners make of them one after the other, each applied to the objects and the whole
  new sequence; the listener with index \<open>k\<close> was given a new array, which holds what
  that listener left in it; and the record of calls has one entry for each listener, in
  that order, with the whole new sequence as the contents of the array given.
\<close>

theorem addProject_appends_and_notifies:
  assumes "wf st"
  shows "(arr st (projects st) = [] \<longrightarrow>
            length (arr (addProjects cs st) (projects st)) = length cs
          \<and> snapshot (addProjects cs st) = map constructed cs)
       \<and> (let st' = addProject random t d n st; r = nextRef st in
            arr st' (projects st') = arr st (projects st) @ [r]
          \<and> objs st' r = Some \<lparr>id' = random, title = t, description = d, people = n,
                                status = Active\<rparr>
          \<and> (\<forall>r'. r' \<noteq> r \<longrightarrow> objs st' r' = objs st r')
          \<and> calls st' =
              calls st @ map (\<lambda>k. (k, Suc r + k, arr st (projects st) @ [r]))
                             [0..<length (listeners st)]
          \<and> views st' =
              foldl (\<lambda>v l. snd (l (objs st') (arr st (projects st) @ [r]) v))
                    (views st) (listeners st)
          \<and> (\<forall>k<length (listeners st).
                arrs st' (Suc r + k) =
                  Some (fst ((listeners st ! k) (objs st') (arr st (projects st) @ [r])
                          (foldl (\<lambda>v l. snd (l (objs st') (arr st (projects st) @ [r]) v))
                                 (views st) (take k (listeners st)))))))"
proof -
  define st' where "st' = addProject random t d n st"
  have lt: "projects st < nextRef st"
    using assms by (simp add: wf_def)
  have many: "length (arr (addProjects cs st) (projects st)) = length cs
      \<and> snapshot (addProjects cs st) = map constructed cs" if "arr st (projects st) = []"
    using that assms by (simp add: addProjects_length snapshot_addProjects) (simp add: snapshot_def)
  have s: "arr st' (projects st') = arr st (projects st) @ [nextRef st]"
    using lt by (simp add: st'_def addProject_fields addProject_sequence)
  have o: "objs st' = (objs st)(nextRef st \<mapsto> \<lparr>id' = random, title = t, description = d,
      people = n, status = Active\<rparr>)"
    by (simp add: st'_def addProject_fields)
  have c: "calls st' =
      calls st @ map (\<lambda>k. (k, Suc (nextRef st) + k, arr st (projects st) @ [nextRef st]))
                     [0..<length (listeners st)]"
    unfolding st'_def using lt by (rule addProject_calls)
  have v: "views st' =
      foldl (\<lambda>v l. snd (l (objs st') (arr st (projects st) @ [nextRef st]) v))
            (views st) (listeners st)"
    using addProject_views [OF lt, of random t d n] lt
    by (simp add: st'_def addProject_sequence)
  have h: "arrs st' (Suc (nextRef st) + k) =
      Some (fst ((listeners st ! k) (objs st') (arr st (projects st) @ [nextRef st])
              (foldl (\<lambda>v l. snd (l (objs st') (arr st (projects st) @ [nextRef st]) v))
                     (views st) (take k (listeners st)))))"
    if "k < length (listeners st)" for k
    using addProject_handed [OF lt that, of random t d n] by (simp add: st'_def)
  have step: "arr st' (projects st') = arr st (projects st) @ [nextRef st]
      \<and> objs st' (nextRef st) = Some \<lparr>id' = random, title = t, description = d, people = n,
                                       status = Active\<rparr>
      \<and> (\<forall>r'. r' \<noteq> nextRef st \<longrightarrow> objs st' r' = objs st r')
      \<and> calls st' =
          calls st @ map (\<lambda>k. (k, Suc (nextRef st) + k, arr st (projects st) @ [nextRef st]))
                         [0..<length (listeners st)]
      \<and> views st' =
          foldl (\<lambda>v l. snd (l (objs st') (arr st (projects st) @ [nextRef st]) v))
                (views st) (listeners st)
      \<and> (\<forall>k<length (listeners st).
            arrs st' (Suc (nextRef st) + k) =
              Some (fst ((listeners st ! k) (objs st') (arr st (projects st) @ [nextRef st])
                      (foldl (\<lambda>v l. snd (l (objs st') (arr st (projects st) @ [nextRef st]) v))
                             (views st) (take k (listeners st))))))"
    using s c v h by (simp add: o)
  from many step show ?thesis
    unfolding Let_def st'_def by blast
qed

theorem addProject_appends_and_notifies_witness:
  "wf twoListeners \<and> arr twoListeners (projects twoListeners) = []
   \<and> length (arr (addProjects [(''0.25'', ''Build API'', ''Implement REST endpoints'', Num 3),
                              (''0.75'', ''Design UI'', ''Mockups and wireframes'', Num 2)]
                  twoListeners) (projects twoListeners)) = 2
   \<and> calls (addProject ''0.25'' ''Build API'' ''Implement REST endpoints'' (Num 3) twoListeners)
       = [(0, 2, [1]), (1, 3, [1])]
   \<and> views (addProject ''0.25'' ''Build API'' ''Implement REST endpoints'' (Num 3) twoListeners)
       = 1
   \<and> views (addProject ''0.25'' ''Build API'' ''Implement REST endpoints'' (Num 3)
              listenersReversed) = 2"
  using addProject_appends_and_notifies [OF wf_twoListeners,
      of "[(''0.25'', ''Build API'', ''Implement REST endpoints'', Num 3),
           (''0.75'', ''Design UI'', ''Mockups and wireframes'', Num 2)]"
         "''0.25''" "''Build API''" "''Implement REST endpoints''" "Num 3"]
    addProject_appends_and_notifies [OF wf_listenersReversed,
      of "[]" "''0.25''" "''Build API''" "''Implement REST endpoints''" "Num 3"]
  by (simp add: wf_twoListeners twoListeners_simps listenersReversed_simps arr_def
      Let_def upt_rec dropAll_def noteLength_def)




text \<open>
  Claim C2, for \<open>moveProject\<close> as the specification describes it. When no item of the
  store has the identity, the call changes nothing: the state after it is the state
  before it, so the sequence is unchanged and no listener is run. When an item has the
  identity, the call sets the status of an item with that identity and leaves its other
  fields, every other object and the sequence of the store as they were. Before it
  returns it has run every listener once, in the order of registration: the views are
  what the listeners make of them one after the other, each applied to the objects and
  the whole sequence; the listener with index \<open>k\<close> was given a new array, which holds
  what that listener left in it; and the record of calls has one entry for each listener.
\<close>

theorem moveProject_sets_status_or_ignores:
  shows "((\<forall>r \<in> set (arr st (projects st)). id' (deref (objs st) r) \<noteq> projectId) \<longrightarrow>
            moveProject projectId newStatus st = st)
       \<and> (wf st \<and> (\<exists>r \<in> set (arr st (projects st)). id' (deref (objs st) r) = projectId) \<longrightarrow>
            (\<exists>r \<in> set (arr st (projects st)).
               let st' = moveProject projectId newStatus st; item = deref (objs st) r in
                 id' item = projectId
               \<and> objs st' r = Some (item\<lparr>status := newStatus\<rparr>)
               \<and> deref (objs st') r =
                    \<lparr>id' = id' item, title = title item, description = description item,
                     people = people item, status = newStatus\<rparr>
               \<and> (\<forall>r'. r' \<noteq> r \<longrightarrow> objs st' r' = objs st r')
               \<and> arr st' (projects st') = arr st (projects st)
               \<and> calls st' =
                    calls st @ map (\<lambda>k. (k, nextRef st + k, arr st (projects st)))
                                   [0..<length (listeners st)]
               \<and> views st' =
                    foldl (\<lambda>v l. snd (l (objs st') (arr st (projects st)) v))
                          (views st) (listeners st)
               \<and> (\<forall>k<length (listeners st).
                     arrs st' (nextRef st + k) =
                       Some (fst ((listeners st ! k) (objs st') (arr st (projects st))
                               (foldl (\<lambda>v l. snd (l (objs st') (arr st (projects st)) v))
                                      (views st) (take k (listeners st))))))))"
proof -
  have absent: "moveProject projectId newStatus st = st"
    if "\<forall>r \<in> set (arr st (projects st)). id' (deref (objs st) r) \<noteq> projectId"
    using that by (simp add: moveProject_absent findProject_None)
  have found: "\<exists>r \<in> set (arr st (projects st)).
      let st' = moveProject projectId newStatus st; item = deref (objs st) r in
        id' item = projectId
      \<and> objs st' r = Some (item\<lparr>status := newStatus\<rparr>)
      \<and> deref (objs st') r =
           \<lparr>id' = id' item, title = title item, description = description item,
            people = people item, status = newStatus\<rparr>
      \<and> (\<forall>r'. r' \<noteq> r \<longrightarrow> objs st' r' = objs st r')
      \<and> arr st' (projects st') = arr st (projects st)
      \<and> calls st' =
           calls st @ map (\<lambda>k. (k, nextRef st + k, arr st (projects st)))
                          [0..<length (listeners st)]
      \<and> views st' =
           foldl (\<lambda>v l. snd (l (objs st') (arr st (projects st)) v))
                 (views st) (listeners st)
      \<and> (\<forall>k<length (listeners st).
            arrs st' (nextRef st + k) =
              Some (fst ((listeners st ! k) (objs st') (arr st (projects st))
                      (foldl (\<lambda>v l. snd (l (objs st') (arr st (projects st)) v))
                             (views st) (take k (listeners st))))))"
    if "wf st" and ex: "\<exists>r \<in> set (arr st (projects st)). id' (deref (objs st) r) = projectId"
  proof -
    define st' where "st' = moveProject projectId newStatus st"
    have lt: "projects st < nextRef st"
      using that(1) by (simp add: wf_def)
    from ex obtain r where f: "findProject projectId st = Some r"
      using findProject_None [of projectId st] by (cases "findProject projectId st") auto
    have mem: "r \<in> set (arr st (projects st))" and idr: "id' (deref (objs st) r) = projectId"
      using findProject_Some [OF f] by simp_all
    have o: "objs st' = (objs st)(r \<mapsto> (deref (objs st) r)\<lparr>status := newStatus\<rparr>)"
      unfolding st'_def using f by (rule moveProject_objs)
    have seq: "arr st' (projects st') = arr st (projects st)"
      using lt by (simp add: st'_def moveProject_fields moveProject_sequence)
    have c: "calls st' = calls st @ map (\<lambda>k. (k, nextRef st + k, arr st (projects st)))
        [0..<length (listeners st)]"
      unfolding st'_def using f lt by (rule moveProject_calls)
    have v: "views st' = foldl (\<lambda>v l. snd (l (objs st') (arr st (projects st)) v))
        (views st) (listeners st)"
      unfolding st'_def using f lt by (rule moveProject_views)
    have h: "arrs st' (nextRef st + k) =
        Some (fst ((listeners st ! k) (objs st') (arr st (projects st))
                (foldl (\<lambda>v l. snd (l (objs st') (arr st (projects st)) v))
                       (views st) (take k (listeners st)))))"
      if "k < length (listeners st)" for k
      unfolding st'_def using f lt that by (rule moveProject_handed)
    have fields: "objs st' r = Some ((deref (objs st) r)\<lparr>status := newStatus\<rparr>)"
      "deref (objs st') r =
         \<lparr>id' = id' (deref (objs st) r), title = title (deref (objs st) r),
          description = description (deref (objs st) r), people = people (deref (objs st) r),
          status = newStatus\<rparr>"
      "\<forall>r'. r' \<noteq> r \<longrightarrow> objs st' r' = objs st r'"
      by (simp_all add: o deref_def)
    show ?thesis
      unfolding Let_def st'_def [symmetric]
      using mem idr seq c v h fields by (intro bexI [of _ r]) blast+
  qed
  from absent found show ?thesis by blast
qed

theorem moveProject_sets_status_or_ignores_witness:
  "wf oneProject
   \<and> moveProject ''0.99'' Finished oneProject = oneProject
   \<and> objs (moveProject ''0.25'' Finished oneProject) 1 =
       Some \<lparr>id' = ''0.25'', title = ''Build API'', description = ''Implement REST endpoints'',
             people = Num 3, status = Finished\<rparr>
   \<and> arr (moveProject ''0.25'' Finished oneProject) 0 = [1]
   \<and> calls (moveProject ''0.25'' Finished oneProject) =
       [(0, 2, [1]), (1, 3, [1]), (0, 4, [1]), (1, 5, [1])]
   \<and> views (moveProject ''0.25'' Finished oneProject) = 1
   \<and> arrs (moveProject ''0.25'' Finished oneProject) 4 = Some []
   \<and> arrs (moveProject ''0.25'' Finished oneProject) 5 = Some [1]"
  using moveProject_sets_status_or_ignores [of oneProject "''0.99''" Finished]
    moveProject_sets_status_or_ignores [of oneProject "''0.25''" Finished]
  by (simp add: wf_oneProject oneProject_simps oneProject_heap deref_def Let_def upt_rec
      moveProject_fields dropAll_def noteLength_def All_less_Suc2 numeral_eq_Suc)

section \<open>Properties of the views and of drag and drop\<close>

lemma renderProjects_fold:
  "foldl (\<lambda>l projectItem.
             l\<lparr>ul_children := attach False (newProjectItem h projectItem) (ul_children l)\<rparr>)
         l0 rs = l0\<lparr>ul_children := ul_children l0 @ map (newProjectItem h) rs\<rparr>"
  by (induction rs arbitrary: l0) (simp_all add: attach_def)

lemma renderProjects_eq:
  "renderProjects h this = this\<lparr>ul_children := map (newProjectItem h) (assignedProjects this)\<rparr>"
  by (simp add: renderProjects_def renderProjects_fold)

lemma project_newProjectItem: "project (newProjectItem h r) = r"
  by (simp add: newProjectItem_def Let_def)

lemma relevant_iff: "relevant t proj = (status proj = categoryStatus t)"
  by (cases t) (simp_all add: relevant_def categoryStatus_def)

lemma projectsListener_result:
  "projectsListener h snap this =
     (snap, this\<lparr>assignedProjects :=
                    filter (\<lambda>r. status (deref h r) = categoryStatus (type this)) snap,
                  ul_children :=
                    map (newProjectItem h)
                      (filter (\<lambda>r. status (deref h r) = categoryStatus (type this)) snap)\<rparr>)"
  by (simp add: projectsListener_def renderProjects_eq Let_def relevant_iff)

lemma board_simps:
  "projects board = 0" "nextRef board = 1" "arrs board = [0 \<mapsto> []]"
  "objs board = Map.empty" "listeners board = [listenerOf active, listenerOf finished]"
  "views board = emptyList" "calls board = []"
  by (simp_all add: board_def addListener_def newProjectState_def)

lemma wf_board: "wf board"
  by (simp add: board_def wf_addListener wf_newProjectState)

lemma map_of_filter_other: "map_of (filter (\<lambda>item. fst item \<noteq> k) xs) k = None"
  by (induction xs) auto

lemma getData_setData: "getData format (setData format d dt) = d"
  by (simp add: getData_def setData_def map_add_def map_of_filter_other)

text \<open>
  Claim C5. The listener of a list leaves in the list exactly the items of the array it
  was given whose status is that of the list's category, in the order of that array, and
  the rebuilt children of the \<open>ul\<close> are one \<open>ProjectItem\<close> for each of them, whatever
  the list held before. On the page, after \<open>addProject\<close> has called the listeners, each
  list holds the items of the store's sequence with the status of its category.
\<close>

theorem list_view_mirrors_snapshot:
  "(case projectsListener h snap this of
      (items', this') \<Rightarrow>
        assignedProjects this' =
          filter (\<lambda>r. status (deref h r) = categoryStatus (type this)) snap
      \<and> map project (ul_children this') = assignedProjects this'
      \<and> ul_children this' = map (newProjectItem h) (assignedProjects this')
      \<and> type this' = type this
      \<and> items' = snap)
   \<and> (wf st \<and> listeners st = [listenerOf active, listenerOf finished] \<longrightarrow>
        (let st' = addProject random t d n st in
           assignedProjects (views st' c) =
             filter (\<lambda>r. status (deref (objs st') r) = categoryStatus (type (views st c)))
                    (arr st' (projects st'))
         \<and> ul_children (views st' c) =
             map (newProjectItem (objs st')) (assignedProjects (views st' c))))"
proof -
  have one: "case projectsListener h snap this of
      (items', this') \<Rightarrow>
        assignedProjects this' =
          filter (\<lambda>r. status (deref h r) = categoryStatus (type this)) snap
      \<and> map project (ul_children this') = assignedProjects this'
      \<and> ul_children this' = map (newProjectItem h) (assignedProjects this')
      \<and> type this' = type this
      \<and> items' = snap"
    by (simp add: projectsListener_result o_def project_newProjectItem)
  have two: "let st' = addProject random t d n st in
      assignedProjects (views st' c) =
        filter (\<lambda>r. status (deref (objs st') r) = categoryStatus (type (views st c)))
               (arr st' (projects st'))
    \<and> ul_children (views st' c) =
        map (newProjectItem (objs st')) (assignedProjects (views st' c))"
    if "wf st" and ls: "listeners st = [listenerOf active, listenerOf finished]"
  proof -
    have lt: "projects st < nextRef st"
      using that(1) by (simp add: wf_def)
    show ?thesis
      by (cases c)
         (simp_all add: Let_def addProject_views [OF lt] ls listenerOf_def
            addProject_fields(1) projectsListener_result)
  qed
  from one two show ?thesis by blast
qed

theorem list_view_mirrors_snapshot_witness:
  "wf board \<and> listeners board = [listenerOf active, listenerOf finished]
   \<and> assignedProjects
       (views (addProject ''0.25'' ''Build API'' ''Implement REST endpoints'' (Num 3) board)
          active) = [1]
   \<and> assignedProjects
       (views (addProject ''0.25'' ''Build API'' ''Implement REST endpoints'' (Num 3) board)
          finished) = []
   \<and> map h2_textContent (ul_children
       (views (addProject ''0.25'' ''Build API'' ''Implement REST endpoints'' (Num 3) board)
          active)) = [''Build API'']"
  using list_view_mirrors_snapshot [where st = board and random = "''0.25''"
        and t = "''Build API''" and d = "''Implement REST endpoints''" and n = "Num 3"
        and c = active]
    list_view_mirrors_snapshot [where st = board and random = "''0.25''"
        and t = "''Build API''" and d = "''Implement REST endpoints''" and n = "Num 3"
        and c = finished]
    addProject_sequence [of board "''0.25''" "''Build API''" "''Implement REST endpoints''" "Num 3"]
  by (simp add: wf_board board_simps Let_def addProject_fields deref_def emptyList_def
      renderContent_def categoryStatus_def newProjectItem_def arr_def)

text \<open>
  Claim C7, as the code has it. The handler looks at the first type of the payload only:
  when the event has a payload whose first type is \<open>text/plain\<close>, it prevents the default
  and adds \<open>droppable\<close> to the class list of the \<open>ul\<close>; in every other case, also
  when \<open>text/plain\<close> is advertised at a later position, it leaves the list and the event
  as they are.
\<close>

theorem dragOver_accepts_first_type_plain:
  "(firstType event = Some ''text/plain'' \<longrightarrow>
      dragOverHandler this event =
        (this\<lparr>ul_classList := classList_add ''droppable'' (ul_classList this)\<rparr>,
         event\<lparr>defaultPrevented := True\<rparr>)
    \<and> ''droppable'' \<in> set (ul_classList (fst (dragOverHandler this event)))
    \<and> defaultPrevented (snd (dragOverHandler this event)))
   \<and> (firstType event \<noteq> Some ''text/plain'' \<longrightarrow> dragOverHandler this event = (this, event))"
  by (auto simp: firstType_def dragOverHandler_def preventDefault_def classList_add_def
      split: option.splits list.splits)

theorem dragOver_accepts_first_type_plain_witness:
  "firstType plainDrag = Some ''text/plain''
   \<and> ul_classList (fst (dragOverHandler (emptyList finished) plainDrag)) = [''droppable'']
   \<and> defaultPrevented (snd (dragOverHandler (emptyList finished) plainDrag))
   \<and> firstType linkDrag \<noteq> Some ''text/plain''
   \<and> dragOverHandler (emptyList active) linkDrag = (emptyList active, linkDrag)"
  using dragOver_accepts_first_type_plain [of plainDrag "emptyList finished"]
    dragOver_accepts_first_type_plain [of linkDrag "emptyList active"]
  by (simp add: firstType_def plainDrag_def linkDrag_def types_def emptyList_def
      renderContent_def classList_add_def)

text \<open>
  The claim as the specification states it fails for a dragged link: its payload
  advertises \<open>text/plain\<close> after \<open>text/uri-list\<close>, and the handler ignores the event.
\<close>

theorem dragOver_plain_text_not_first_counterexample:
  "advertises ''text/plain'' linkDrag
   \<and> dragOverHandler (emptyList finished) linkDrag = (emptyList finished, linkDrag)
   \<and> \<not> defaultPrevented (snd (dragOverHandler (emptyList finished) linkDrag))
   \<and> ''droppable'' \<notin> set (ul_classList (fst (dragOverHandler (emptyList finished) linkDrag)))"
  by (simp add: advertises_def linkDrag_def types_def dragOverHandler_def emptyList_def
      renderContent_def)

text \<open>
  Claim C8. On drag start, when the event has a payload, the item writes the identity of
  its project into the payload as \<open>text/plain\<close> and sets the allowed effect to
  \<open>move\<close>. The drop handler of a list, given a drop event with that payload, calls the
  move of the store with that identity and with the status of the list's category.
\<close>

theorem drop_moves_dragged_identity:
  assumes "dataTransfer dragStart = Some dt"
  shows "\<exists>dt'. dragStartHandler h item dragStart = Inr (dragStart\<lparr>dataTransfer := Some dt'\<rparr>)
           \<and> getData ''text/plain'' dt' = id' (deref h (project item))
           \<and> (''text/plain'', id' (deref h (project item))) \<in> set (store dt')
           \<and> effectAllowed dt' = ''move''
           \<and> (\<forall>drop. dataTransfer drop = Some dt' \<longrightarrow>
                 dropHandler moveProject' this drop st =
                   Inr (drop, moveProject' (id' (deref h (project item)))
                                (categoryStatus (type this)) st))"
proof -
  let ?dt = "(setData ''text/plain'' (id' (deref h (project item))) dt)\<lparr>effectAllowed := ''move''\<rparr>"
  have got: "getData ''text/plain'' ?dt = id' (deref h (project item))"
    using getData_setData [of "''text/plain''" "id' (deref h (project item))" dt]
    by (simp add: getData_def setData_def)
  have stored: "(''text/plain'', id' (deref h (project item))) \<in> set (store ?dt)"
    by (simp add: setData_def)
  have started: "dragStartHandler h item dragStart = Inr (dragStart\<lparr>dataTransfer := Some ?dt\<rparr>)"
    using assms by (simp add: dragStartHandler_def)
  have dropped: "dropHandler moveProject' this drop st =
      Inr (drop, moveProject' (id' (deref h (project item))) (categoryStatus (type this)) st)"
    if "dataTransfer drop = Some ?dt" for drop
    using that got by (cases "type this") (simp_all add: dropHandler_def categoryStatus_def)
  from got stored started dropped show ?thesis
    by (intro exI [of _ ?dt]) simp
qed

theorem drop_moves_dragged_identity_witness:
  "dataTransfer freshDrag = Some \<lparr>store = [], effectAllowed = ''uninitialized''\<rparr>
   \<and> dragStartHandler (objs oneProject) (newProjectItem (objs oneProject) 1) freshDrag
       = Inr plainDrag
   \<and> dropHandler recordMove (emptyList finished) plainDrag []
       = Inr (plainDrag, [(''0.25'', Finished)])"
  using drop_moves_dragged_identity [of freshDrag
      "\<lparr>store = [], effectAllowed = ''uninitialized''\<rparr>"
      "objs oneProject" "newProjectItem (objs oneProject) 1" recordMove "emptyList finished" "[]"]
  by (simp add: freshDrag_def plainDrag_def dragStartHandler_def dropHandler_def setData_def
      getData_def newProjectItem_def oneProject_simps deref_def emptyList_def renderContent_def
      recordMove_def)

text \<open>
  Claim C9, with \<open>moveProject\<close> as the specification describes it. The drop handler has
  no test of its own: for a payload without \<open>text/plain\<close> it reads the empty text and
  calls \<open>moveProject\<close> with it. No item of the store has the empty identity, so the call
  finds nothing: the state after the drop is the state before it (no object, no array
  and no view changed, no listener called), and the event is as it was, its default not
  prevented. An event with no payload at all ends the handler with a \<open>TypeError\<close>
  before anything is changed.
\<close>

theorem drop_without_plain_text_changes_nothing:
  assumes "idsNonEmpty st" and "\<not> advertises ''text/plain'' event"
  shows "dropHandler moveProject this event st =
           (case dataTransfer event of None \<Rightarrow> Inl TypeError | Some dt \<Rightarrow> Inr (event, st))"
proof (cases "dataTransfer event")
  case None
  then show ?thesis by (simp add: dropHandler_def)
next
  case (Some dt)
  with assms(2) have "''text/plain'' \<notin> fst ` set (store dt)"
    by (simp add: advertises_def types_def)
  then have "getData ''text/plain'' dt = []"
    by (simp add: getData_def map_of_eq_None_iff [THEN iffD2])
  moreover have "findProject [] st = None"
    using assms(1) by (auto simp: findProject_None idsNonEmpty_def list_all_iff)
  ultimately show ?thesis
    using Some by (simp add: dropHandler_def moveProject_absent)
qed

theorem drop_without_plain_text_changes_nothing_witness:
  "idsNonEmpty oneProject \<and> \<not> advertises ''text/plain'' htmlDrag
   \<and> dropHandler moveProject (emptyList finished) htmlDrag oneProject = Inr (htmlDrag, oneProject)"
  using drop_without_plain_text_changes_nothing [of oneProject htmlDrag "emptyList finished"]
  by (simp add: idsNonEmpty_def oneProject_simps deref_def advertises_def htmlDrag_def types_def)

section \<open>Properties of the input form\<close>

lemma trim_blank: "(trim s = []) = list_all isWhiteSpace s"
proof
  assume "trim s = []"
  then have "dropWhile isWhiteSpace (rev (dropWhile isWhiteSpace s)) = []"
    by (simp add: trim_def)
  then have all: "\<forall>c \<in> set (dropWhile isWhiteSpace s). isWhiteSpace c"
    by simp
  have "dropWhile isWhiteSpace s = []"
  proof (rule ccontr)
    assume ne: "dropWhile isWhiteSpace s \<noteq> []"
    then have "\<not> isWhiteSpace (hd (dropWhile isWhiteSpace s))"
      by (rule hd_dropWhile)
    moreover have "hd (dropWhile isWhiteSpace s) \<in> set (dropWhile isWhiteSpace s)"
      using ne by simp
    ultimately show False
      using all by blast
  qed
  then show "list_all isWhiteSpace s"
    by (simp add: list_all_iff)
next
  assume "list_all isWhiteSpace s"
  then show "trim s = []"
    by (auto simp: trim_def list_all_iff dest: set_dropWhileD)
qed

lemma digit_not_white: "k < 10 \<Longrightarrow> \<not> isWhiteSpace (''0123456789'' ! k)"
proof -
  assume "k < 10"
  then consider "k = 0" | "k = 1" | "k = 2" | "k = 3" | "k = 4" | "k = 5" | "k = 6"
    | "k = 7" | "k = 8" | "k = 9"
    by atomize_elim arith
  then show ?thesis
    by cases (simp_all add: isWhiteSpace_def)
qed

lemma natToString_not_blank: "\<not> list_all isWhiteSpace (natToString n)"
  by (subst natToString.simps) (simp add: digit_not_white)

lemma numberToString_not_blank: "trim (numberToString n) \<noteq> []"
  by (cases n) (simp_all add: trim_blank natToString_not_blank isWhiteSpace_def)

text \<open>When the form rejects: the title is blank, or the description is blank and at
  least five characters long. The number of people never makes it reject.\<close>

lemma gatherUserInput_result:
  "gatherUserInput this shown =
     (if trim (titleInputElement this) = []
         \<or> (trim (descriptionInputElement this) = [] \<and> 5 \<le> length (descriptionInputElement this))
      then (None, shown @ [''Invalid input, please try again!''])
      else (Some (titleInputElement this, descriptionInputElement this,
                  toNumber (peopleInputElement this)), shown))"
  by (simp add: gatherUserInput_def Let_def validate_string validate_number
      numberToString_not_blank)

text \<open>
  Claim C6. The specification has a submission rejected, with a notification and no
  change of the store, whenever the title, the description or the number of people fails
  its constraint. The code calls \<open>alert\<close> when \<open>validate\<close> answers true for one of the
  three, and \<open>validate\<close> answers true under \<open>required\<close> for a blank value. For the
  title \<open>Build API\<close>, the description \<open>abc\<close> (shorter than five characters) and
  eleven people (more than ten), no alert is shown, the item is added to the store and
  the form is cleared.
\<close>

theorem submit_commits_invalid_input:
  "submitHandler ''0.5'' \<lparr>defaultPrevented = False\<rparr> shortDescription =
     (\<lparr>defaultPrevented = True\<rparr>,
      \<lparr>projectInput = \<lparr>titleInputElement = [], descriptionInputElement = [],
                        peopleInputElement = []\<rparr>,
       alerts = [],
       projectState = addProject ''0.5'' ''Build API'' ''abc'' (Num 11) twoListeners\<rparr>)
   \<and> snapshot (addProject ''0.5'' ''Build API'' ''abc'' (Num 11) twoListeners) =
       [\<lparr>id' = ''0.5'', title = ''Build API'', description = ''abc'', people = Num 11,
         status = Active\<rparr>]
   \<and> snapshot (projectState shortDescription) = []"
proof -
  have eleven: "toNumber ''11'' = Num 11"
    by (simp add: toNumber_def trim_def isWhiteSpace_def digitsToNumber_def isDigit_def
        digitValue_def)
  have gathered: "gatherUserInput (projectInput shortDescription) (alerts shortDescription) =
      (Some (''Build API'', ''abc'', Num 11), [])"
    by (simp add: gatherUserInput_result shortDescription_def eleven trim_def isWhiteSpace_def)
  have added: "snapshot (addProject ''0.5'' ''Build API'' ''abc'' (Num 11) twoListeners) =
      [\<lparr>id' = ''0.5'', title = ''Build API'', description = ''abc'', people = Num 11,
        status = Active\<rparr>]"
    using snapshot_addProject [OF wf_twoListeners, of "''0.5''" "''Build API''" "''abc''" "Num 11"]
    by (simp add: snapshot_def twoListeners_simps arr_def constructed_def)
  have before: "snapshot (projectState shortDescription) = []"
    by (simp add: snapshot_def shortDescription_def twoListeners_simps arr_def)
  show ?thesis
    using gathered added before
    by (simp add: submitHandler_def preventDefault_def clearInputs_def Let_def)
       (simp add: shortDescription_def)
qed

end
